theory Spec2Isabelle
  imports Complex_Main
begin

section \<open>The document\<close>

text \<open>
  \<^verbatim>\<open>static/js/script.js\<close> is one \<^verbatim>\<open>DOMContentLoaded\<close> listener that registers two
  scroll listeners on the window and two families of click listeners on elements of
  the page. Everything it reads and writes is the document of the page: element
  objects, their \<^verbatim>\<open>classList\<close>, their \<^verbatim>\<open>hash\<close>.

  An element object is identified by a \<open>node\<close>. The objects live in a store
  (\<open>elems\<close>); the elements that are in the document form a forest (\<open>tree\<close>) read in
  tree order, as \<^verbatim>\<open>querySelector\<close> and \<^verbatim>\<open>querySelectorAll\<close> do. An object that a static
  \<^verbatim>\<open>NodeList\<close> captured stays in the store when it leaves the tree.
\<close>

type_synonym node = nat

record element =
  localName :: string
  ident :: string
  classList :: "string list"
  hash :: "string option"

text \<open>
  \<open>ident\<close> is the \<^verbatim>\<open>id\<close> attribute (empty when there is none). \<open>classList\<close> is the
  ordered token set of the \<^verbatim>\<open>class\<close> attribute. \<open>hash\<close> is what the expression
  \<^verbatim>\<open>this.hash\<close> reads: the fragment with its leading \<^verbatim>\<open>#\<close> (or the empty string) on an
  element that has the property (\<^verbatim>\<open>a\<close>, \<^verbatim>\<open>area\<close>), and \<open>None\<close> for \<^verbatim>\<open>undefined\<close> on
  an element that has no such property (a \<^verbatim>\<open>button\<close> or a \<^verbatim>\<open>div\<close> of class \<^verbatim>\<open>btn\<close>).
\<close>

datatype dtree = Element node "dtree list"

record document =
  tree :: "dtree list"
  elems :: "node \<Rightarrow> element"

text \<open>Tree order; every element comes with its ancestors, the nearest first.\<close>

fun descend :: "node list \<Rightarrow> dtree \<Rightarrow> (node \<times> node list) list" where
  "descend anc (Element n ts) = (n, anc) # concat (map (descend (n # anc)) ts)"

definition tree_order :: "document \<Rightarrow> (node \<times> node list) list" where
  "tree_order d = concat (map (descend []) (tree d))"

subsection \<open>classList\<close>

text \<open>
  \<^verbatim>\<open>DOMTokenList.add\<close> appends a token that is not in the set yet;
  \<^verbatim>\<open>DOMTokenList.remove\<close> takes the token out. The tokens the script passes
  (\<^verbatim>\<open>sticky\<close>, \<^verbatim>\<open>active\<close>, \<^verbatim>\<open>visible\<close>) are valid tokens, so neither call throws.
\<close>

definition add_token :: "string \<Rightarrow> string list \<Rightarrow> string list" where
  "add_token c cs = (if c \<in> set cs then cs else cs @ [c])"

definition remove_token :: "string \<Rightarrow> string list \<Rightarrow> string list" where
  "remove_token c cs = filter (\<lambda>x. x \<noteq> c) cs"

definition classList_add :: "node \<Rightarrow> string \<Rightarrow> document \<Rightarrow> document" where
  "classList_add n c d =
     d\<lparr>elems := (elems d)(n := (elems d n)\<lparr>classList := add_token c (classList (elems d n))\<rparr>)\<rparr>"

definition classList_remove :: "node \<Rightarrow> string \<Rightarrow> document \<Rightarrow> document" where
  "classList_remove n c d =
     d\<lparr>elems := (elems d)(n := (elems d n)\<lparr>classList := remove_token c (classList (elems d n))\<rparr>)\<rparr>"

definition classList_contains :: "node \<Rightarrow> string \<Rightarrow> document \<Rightarrow> bool" where
  "classList_contains n c d = (c \<in> set (classList (elems d n)))"

subsection \<open>Selectors\<close>

text \<open>
  The selectors the script writes as literals are a class selector, a type selector,
  a descendant combinator of the two and a comma-separated list. The id selector is
  what a fragment \<^verbatim>\<open>#name\<close> parses to. Class and id selectors compare as written (a
  document in no-quirks mode); the type selector compares with the local name of the
  element, which is lower case for the elements of an HTML page.
\<close>

datatype simple_selector = ClassSel string | TypeSel string | IdSel string

datatype selector = Simple simple_selector | Descendant simple_selector simple_selector

fun matches_simple :: "(node \<Rightarrow> element) \<Rightarrow> simple_selector \<Rightarrow> node \<Rightarrow> bool" where
  "matches_simple es (ClassSel c) n = (c \<in> set (classList (es n)))"
| "matches_simple es (TypeSel t) n = (localName (es n) = t)"
| "matches_simple es (IdSel i) n = (ident (es n) = i)"

fun matches :: "(node \<Rightarrow> element) \<Rightarrow> selector \<Rightarrow> node \<times> node list \<Rightarrow> bool" where
  "matches es (Simple s) (n, anc) = matches_simple es s n"
| "matches es (Descendant a s) (n, anc) =
     (matches_simple es s n \<and> list_ex (matches_simple es a) anc)"

definition querySelectorAll :: "selector list \<Rightarrow> document \<Rightarrow> node list" where
  "querySelectorAll sels d =
     map fst (filter (\<lambda>p. list_ex (\<lambda>s. matches (elems d) s p) sels) (tree_order d))"

definition querySelector :: "selector list \<Rightarrow> document \<Rightarrow> node option" where
  "querySelector sels d =
     (case querySelectorAll sels d of [] \<Rightarrow> None | n # _ \<Rightarrow> Some n)"

text \<open>The four selector literals of the script.\<close>

definition sel_navbar :: "selector list" where
  "sel_navbar = [Simple (ClassSel ''navbar'')]"

definition sel_a_btn :: "selector list" where
  "sel_a_btn = [Simple (TypeSel ''a''), Simple (ClassSel ''btn'')]"

definition sel_nav_links_a :: "selector list" where
  "sel_nav_links_a = [Descendant (ClassSel ''nav-links'') (TypeSel ''a'')]"

definition sel_reveal :: "selector list" where
  "sel_reveal = [Simple (ClassSel ''reveal'')]"

subsection \<open>A selector given as a string\<close>

text \<open>
  \<^verbatim>\<open>document.querySelector(this.hash)\<close> hands the fragment to the selector parser.
  Two classes of strings are modelled exactly:
  \<^item> \<^verbatim>\<open>#\<close> followed by a plain CSS identifier (a letter or \<^verbatim>\<open>_\<close>, or \<^verbatim>\<open>-\<close> followed by
    one of these or by another \<^verbatim>\<open>-\<close>; then letters, digits, \<^verbatim>\<open>_\<close> and \<^verbatim>\<open>-\<close>) is the id
    selector of that identifier;
  \<^item> \<^verbatim>\<open>#\<close> followed by a digit is a hash token that is not an identifier, which no
    selector may contain: the call throws a \<^verbatim>\<open>SyntaxError\<close>.
  Every other string (escapes, compound selectors such as \<^verbatim>\<open>#a.b\<close>, selector lists,
  pseudo-classes, percent signs) is left to the host: \<open>otherSelectors\<close> below.
\<close>

datatype error = TypeError | SyntaxError

definition is_digit :: "char \<Rightarrow> bool" where
  "is_digit c = (let k = (of_char c :: nat) in 48 \<le> k \<and> k \<le> 57)"

definition is_name_start :: "char \<Rightarrow> bool" where
  "is_name_start c =
     (let k = (of_char c :: nat) in (65 \<le> k \<and> k \<le> 90) \<or> (97 \<le> k \<and> k \<le> 122) \<or> k = 95)"

definition is_name_char :: "char \<Rightarrow> bool" where
  "is_name_char c = (is_name_start c \<or> is_digit c \<or> c = CHR ''-'')"

fun css_ident :: "string \<Rightarrow> bool" where
  "css_ident [] = False"
| "css_ident [c] = is_name_start c"
| "css_ident (c # c' # cs) =
     (if c = CHR ''-'' then (is_name_start c' \<or> c' = CHR ''-'') \<and> list_all is_name_char cs
      else is_name_start c \<and> list_all is_name_char (c' # cs))"

datatype parsed = IdSelector string | InvalidSelector | OtherSelector

fun parse_selector :: "string \<Rightarrow> parsed" where
  "parse_selector [] = OtherSelector"
| "parse_selector [c] = OtherSelector"
| "parse_selector (c # c' # cs) =
     (if c = CHR ''#'' \<and> css_ident (c' # cs) then IdSelector (c' # cs)
      else if c = CHR ''#'' \<and> is_digit c' then InvalidSelector
      else OtherSelector)"

subsection \<open>The host\<close>

text \<open>
  What the browser supplies when a listener runs: \<^verbatim>\<open>window.scrollY\<close>,
  \<^verbatim>\<open>window.innerHeight\<close>, the layout (\<open>rectTop b d el\<close> is
  \<^verbatim>\<open>el.getBoundingClientRect().top\<close> when the document is \<open>d\<close>: the layout is
  recomputed from the document whenever it is read) and the selector engine on the
  strings that \<open>parse_selector\<close> leaves out. The offsets are finite numbers and are
  compared exactly; \<^verbatim>\<open>innerHeight\<close> is an integer.
\<close>

record browser =
  scrollY :: real
  innerHeight :: int
  rectTop :: "document \<Rightarrow> node \<Rightarrow> real"
  otherSelectors :: "string \<Rightarrow> document \<Rightarrow> error + node option"

definition querySelector_string :: "browser \<Rightarrow> string \<Rightarrow> document \<Rightarrow> error + node option" where
  "querySelector_string b s d =
     (case parse_selector s of
        IdSelector i \<Rightarrow> Inr (querySelector [Simple (IdSel i)] d)
      | InvalidSelector \<Rightarrow> Inl SyntaxError
      | OtherSelector \<Rightarrow> otherSelectors b s d)"

section \<open>The listeners\<close>

subsection \<open>Sticky navbar on scroll\<close>

definition sticky_handler :: "browser \<Rightarrow> document \<Rightarrow> document" where
  "sticky_handler b d =
     (case querySelector sel_navbar d of
        None \<Rightarrow> d
      | Some navbar \<Rightarrow>
          if scrollY b > 50 then classList_add navbar ''sticky'' d
          else classList_remove navbar ''sticky'' d)"

subsection \<open>Smooth scroll for links and buttons\<close>

text \<open>
  The listener writes nothing to the document. What it does is told by its outcome:
  whether it called \<^verbatim>\<open>e.preventDefault()\<close>, the calls of \<^verbatim>\<open>scrollIntoView\<close> it made
  with their options, and the exception it ended with, if any. Reading
  \<^verbatim>\<open>startsWith\<close> from \<^verbatim>\<open>undefined\<close> throws a \<^verbatim>\<open>TypeError\<close>; an exception of
  \<^verbatim>\<open>querySelector\<close> leaves the listener after \<^verbatim>\<open>preventDefault\<close> was called.
\<close>

datatype scroll_behavior = Smooth | Instant | AutoBehavior

datatype scroll_block = Start | Center | End | Nearest

datatype scroll_call = ScrollIntoView node scroll_behavior scroll_block

record click_outcome =
  defaultPrevented :: bool
  scrollIntoViewCalls :: "scroll_call list"
  thrown :: "error option"

definition startsWith :: "string \<Rightarrow> string \<Rightarrow> bool" where
  "startsWith s p = (take (length p) s = p)"

definition smooth_click :: "browser \<Rightarrow> node \<Rightarrow> document \<Rightarrow> click_outcome" where
  "smooth_click b this d =
     (case hash (elems d this) of
        None \<Rightarrow> \<lparr>defaultPrevented = False, scrollIntoViewCalls = [], thrown = Some TypeError\<rparr>
      | Some h \<Rightarrow>
          if h \<noteq> [] \<and> startsWith h ''#'' then
            (case querySelector_string b h d of
               Inl err \<Rightarrow>
                 \<lparr>defaultPrevented = True, scrollIntoViewCalls = [], thrown = Some err\<rparr>
             | Inr None \<Rightarrow>
                 \<lparr>defaultPrevented = True, scrollIntoViewCalls = [], thrown = None\<rparr>
             | Inr (Some target) \<Rightarrow>
                 \<lparr>defaultPrevented = True,
                  scrollIntoViewCalls = [ScrollIntoView target Smooth Start],
                  thrown = None\<rparr>)
          else \<lparr>defaultPrevented = False, scrollIntoViewCalls = [], thrown = None\<rparr>)"

subsection \<open>Highlight the active nav link\<close>

definition active_click :: "node list \<Rightarrow> node \<Rightarrow> document \<Rightarrow> document" where
  "active_click links link d =
     classList_add link ''active'' (fold (\<lambda>l. classList_remove l ''active'') links d)"

subsection \<open>Scroll reveal\<close>

definition reveal_step :: "browser \<Rightarrow> node \<Rightarrow> document \<Rightarrow> document" where
  "reveal_step b el d =
     (if rectTop b d el < of_int (innerHeight b - 100) then classList_add el ''visible'' d
      else d)"

definition revealOnScroll :: "browser \<Rightarrow> node list \<Rightarrow> document \<Rightarrow> document" where
  "revealOnScroll b revealElements d = fold (reveal_step b) revealElements d"

subsection \<open>Registration\<close>

text \<open>
  The \<^verbatim>\<open>DOMContentLoaded\<close> listener takes three static node lists from the document
  as it is then, registers the listeners and runs \<^verbatim>\<open>revealOnScroll\<close> once. The node
  lists are all that the registered closures keep.
\<close>

record listeners =
  smoothLinks :: "node list"
  links :: "node list"
  revealElements :: "node list"

definition DOMContentLoaded :: "browser \<Rightarrow> document \<Rightarrow> listeners \<times> document" where
  "DOMContentLoaded b d =
     (let L = \<lparr>smoothLinks = querySelectorAll sel_a_btn d,
               links = querySelectorAll sel_nav_links_a d,
               revealElements = querySelectorAll sel_reveal d\<rparr>
      in (L, revealOnScroll b (revealElements L) d))"

text \<open>A scroll event runs the two scroll listeners in the order of their registration.\<close>

definition scroll_event :: "listeners \<Rightarrow> browser \<Rightarrow> document \<Rightarrow> document" where
  "scroll_event L b d = revealOnScroll b (revealElements L) (sticky_handler b d)"

text \<open>
  One run of one registered listener. A click listener runs for the element it was
  registered on, whether the click hit that element or one inside it.
\<close>

datatype invocation =
    StickyScroll browser
  | RevealScroll browser
  | SmoothClick browser node
  | ActiveClick node

fun invoke :: "listeners \<Rightarrow> invocation \<Rightarrow> document \<Rightarrow> document" where
  "invoke L (StickyScroll b) d = sticky_handler b d"
| "invoke L (RevealScroll b) d = revealOnScroll b (revealElements L) d"
| "invoke L (SmoothClick b this) d = d"
| "invoke L (ActiveClick link) d =
     (if link \<in> set (links L) then active_click (links L) link d else d)"

section \<open>Example pages\<close>

text \<open>
  Concrete documents and hosts on which the statements below are evaluated. \<open>page\<close> is
  a page with a navbar (1), a list of three navigation links (3, 4, 5), two sections
  to reveal (6, 7) and a button of class \<^verbatim>\<open>btn\<close> (8).
\<close>

definition html_element :: "string \<Rightarrow> string \<Rightarrow> string list \<Rightarrow> string option \<Rightarrow> element" where
  "html_element name i cs h = \<lparr>localName = name, ident = i, classList = cs, hash = h\<rparr>"

definition page :: document where
  "page =
     \<lparr>tree =
        [Element 0
           [Element 1 [Element 2 [Element 3 [], Element 4 [], Element 5 []]],
            Element 6 [], Element 7 [], Element 8 []]],
      elems = (\<lambda>n.
        if n = 0 then html_element ''html'' [] [] None
        else if n = 1 then html_element ''nav'' [] [''navbar''] None
        else if n = 2 then html_element ''ul'' [] [''nav-links''] None
        else if n = 3 then html_element ''a'' [] [] (Some ''#home'')
        else if n = 4 then html_element ''a'' [] [] (Some ''#section2'')
        else if n = 5 then html_element ''a'' [] [] (Some [])
        else if n = 6 then html_element ''section'' ''home'' [''reveal''] None
        else if n = 7 then html_element ''section'' ''section2'' [''reveal''] None
        else html_element ''button'' [] [''btn''] None)\<rparr>"

definition bare_page :: document where
  "bare_page = \<lparr>tree = [Element 0 []], elems = (\<lambda>n. html_element ''html'' [] [] None)\<rparr>"

definition digit_target_page :: document where
  "digit_target_page =
     \<lparr>tree = [Element 0 [Element 1 [], Element 2 []]],
      elems = (\<lambda>n.
        if n = 0 then html_element ''html'' [] [] None
        else if n = 1 then html_element ''a'' [] [] (Some ''#1'')
        else html_element ''section'' ''1'' [] None)\<rparr>"

definition digit_missing_page :: document where
  "digit_missing_page =
     \<lparr>tree = [Element 0 [Element 1 []]],
      elems = (\<lambda>n.
        if n = 0 then html_element ''html'' [] [] None
        else html_element ''a'' [] [] (Some ''#1''))\<rparr>"

definition report_link_page :: document where
  "report_link_page =
     \<lparr>tree = [Element 0 [Element 1 [], Element 2 []]],
      elems = (\<lambda>n.
        if n = 0 then html_element ''html'' [] [] None
        else if n = 1 then html_element ''a'' [] [''btn''] (Some ''#2024-report'')
        else html_element ''section'' ''summary'' [] None)\<rparr>"

definition host :: "real \<Rightarrow> (node \<Rightarrow> real) \<Rightarrow> browser" where
  "host y tops =
     \<lparr>scrollY = y, innerHeight = 800, rectTop = (\<lambda>d. tops),
      otherSelectors = (\<lambda>s d. Inr None)\<rparr>"

definition far_away :: "node \<Rightarrow> real" where
  "far_away n = 5000"

definition near :: "node \<Rightarrow> node \<Rightarrow> real" where
  "near el n = (if n = el then 600 else 5000)"

definition page_listeners :: listeners where
  "page_listeners = \<lparr>smoothLinks = [3, 4, 5, 8], links = [3, 4, 5], revealElements = [6, 7]\<rparr>"

section \<open>Basic facts\<close>

subsection \<open>Tokens and classList\<close>

lemma add_token_mem: "x \<in> set (add_token c cs) \<longleftrightarrow> x = c \<or> x \<in> set cs"
  by (auto simp: add_token_def)

lemma remove_token_mem: "x \<in> set (remove_token c cs) \<longleftrightarrow> x \<noteq> c \<and> x \<in> set cs"
  by (auto simp: remove_token_def)

lemma add_token_idem: "add_token c (add_token c cs) = add_token c cs"
  by (simp add: add_token_def)

lemma remove_token_idem: "remove_token c (remove_token c cs) = remove_token c cs"
  by (simp add: remove_token_def)

lemma remove_add_token: "remove_token c (add_token c cs) = remove_token c cs"
  by (simp add: remove_token_def add_token_def)

lemma tree_classList_add: "tree (classList_add n c d) = tree d"
  by (simp add: classList_add_def)

lemma tree_classList_remove: "tree (classList_remove n c d) = tree d"
  by (simp add: classList_remove_def)

lemma elems_classList_remove:
  "elems (classList_remove n c d) m =
     (if m = n then (elems d n)\<lparr>classList := remove_token c (classList (elems d n))\<rparr>
      else elems d m)"
  by (simp add: classList_remove_def)

lemma contains_classList_add:
  "classList_contains m x (classList_add n c d) \<longleftrightarrow> (m = n \<and> x = c) \<or> classList_contains m x d"
  by (auto simp: classList_contains_def classList_add_def add_token_mem)

lemma contains_classList_remove:
  "classList_contains m x (classList_remove n c d) \<longleftrightarrow> \<not> (m = n \<and> x = c) \<and> classList_contains m x d"
  by (auto simp: classList_contains_def classList_remove_def remove_token_mem)

lemma attrs_classList_add:
  "localName (elems (classList_add n c d) m) = localName (elems d m)"
  "ident (elems (classList_add n c d) m) = ident (elems d m)"
  "hash (elems (classList_add n c d) m) = hash (elems d m)"
  by (simp_all add: classList_add_def)

lemma attrs_classList_remove:
  "localName (elems (classList_remove n c d) m) = localName (elems d m)"
  "ident (elems (classList_remove n c d) m) = ident (elems d m)"
  "hash (elems (classList_remove n c d) m) = hash (elems d m)"
  by (simp_all add: classList_remove_def)

lemma classList_add_idem: "classList_add n c (classList_add n c d) = classList_add n c d"
  by (simp add: classList_add_def add_token_idem)

lemma classList_remove_idem: "classList_remove n c (classList_remove n c d) = classList_remove n c d"
  by (simp add: classList_remove_def remove_token_idem)

lemma document_eqI:
  fixes d d' :: document
  assumes "tree d = tree d'" and "\<And>n. elems d n = elems d' n"
  shows "d = d'"
proof -
  have "elems d = elems d'" using assms(2) by (rule ext)
  with assms(1) show ?thesis by simp
qed

lemma element_eqI:
  fixes e e' :: element
  assumes "localName e = localName e'" "ident e = ident e'" "classList e = classList e'" "hash e = hash e'"
  shows "e = e'"
  using assms by simp

subsection \<open>Selectors\<close>

text \<open>A selector reads the tree, the names, the ids and the membership of classes.\<close>

lemma querySelectorAll_cong:
  assumes "tree d' = tree d"
    and "\<And>s p. s \<in> set sels \<Longrightarrow> matches (elems d') s p = matches (elems d) s p"
  shows "querySelectorAll sels d' = querySelectorAll sels d"
proof -
  have "(\<lambda>p. list_ex (\<lambda>s. matches (elems d') s p) sels) = (\<lambda>p. list_ex (\<lambda>s. matches (elems d) s p) sels)"
    using assms(2) by (auto simp: list_ex_iff)
  then show ?thesis
    using assms(1) by (simp add: querySelectorAll_def tree_order_def)
qed

lemma matches_navbar_add_sticky:
  "s \<in> set sel_navbar \<Longrightarrow> matches (elems (classList_add n ''sticky'' d)) s p = matches (elems d) s p"
  by (cases p) (auto simp: sel_navbar_def classList_add_def add_token_mem)

lemma matches_navbar_remove_sticky:
  "s \<in> set sel_navbar \<Longrightarrow> matches (elems (classList_remove n ''sticky'' d)) s p = matches (elems d) s p"
  by (cases p) (auto simp: sel_navbar_def classList_remove_def remove_token_mem)

lemma parse_selector_ident:
  "css_ident name \<Longrightarrow> parse_selector (CHR ''#'' # name) = IdSelector name"
  by (cases name) simp_all

lemma digit_not_name_start: "is_digit c \<Longrightarrow> \<not> is_name_start c"
  by (auto simp: is_digit_def is_name_start_def Let_def)

lemma digit_not_minus: "is_digit c \<Longrightarrow> c \<noteq> CHR ''-''"
  by (auto simp: is_digit_def Let_def)

lemma css_ident_digit: "is_digit c \<Longrightarrow> \<not> css_ident (c # cs)"
  by (cases cs) (simp_all add: digit_not_name_start digit_not_minus)

lemma parse_selector_digit:
  "is_digit c \<Longrightarrow> parse_selector (CHR ''#'' # c # cs) = InvalidSelector"
  by (simp add: css_ident_digit)

subsection \<open>The sticky listener\<close>

lemma querySelector_navbar_sticky_handler:
  "querySelector sel_navbar (sticky_handler b d) = querySelector sel_navbar d"
proof -
  have "querySelectorAll sel_navbar (sticky_handler b d) = querySelectorAll sel_navbar d"
    unfolding sticky_handler_def
    by (auto split: option.splits
        intro!: querySelectorAll_cong
        simp: tree_classList_add tree_classList_remove matches_navbar_add_sticky matches_navbar_remove_sticky)
  then show ?thesis by (simp add: querySelector_def)
qed

lemma sticky_handler_idem: "sticky_handler b (sticky_handler b d) = sticky_handler b d"
proof (cases "querySelector sel_navbar d")
  case None
  then show ?thesis by (simp add: sticky_handler_def)
next
  case (Some navbar)
  have "sticky_handler b (sticky_handler b d) =
        (if scrollY b > 50 then classList_add navbar ''sticky'' (sticky_handler b d)
         else classList_remove navbar ''sticky'' (sticky_handler b d))"
    using Some querySelector_navbar_sticky_handler [of b d]
    by (simp add: sticky_handler_def [of b "sticky_handler b d"])
  then show ?thesis
    using Some by (simp add: sticky_handler_def [of b d] classList_add_idem classList_remove_idem)
qed

lemma sticky_handler_contains:
  "querySelector sel_navbar d = Some navbar \<Longrightarrow>
   classList_contains navbar ''sticky'' (sticky_handler b d) \<longleftrightarrow> 50 < scrollY b"
  by (simp add: sticky_handler_def contains_classList_add contains_classList_remove)

lemma querySelector_navbar_history:
  "querySelector sel_navbar (fold sticky_handler history d) = querySelector sel_navbar d"
  by (induction history arbitrary: d) (simp_all add: querySelector_navbar_sticky_handler)

lemma tree_sticky_handler: "tree (sticky_handler b d) = tree d"
  by (simp add: sticky_handler_def tree_classList_add tree_classList_remove split: option.splits)

lemma attrs_sticky_handler:
  "localName (elems (sticky_handler b d) m) = localName (elems d m)"
  "ident (elems (sticky_handler b d) m) = ident (elems d m)"
  "hash (elems (sticky_handler b d) m) = hash (elems d m)"
  by (simp_all add: sticky_handler_def attrs_classList_add attrs_classList_remove split: option.splits)

lemma contains_sticky_handler_other:
  "c \<noteq> ''sticky'' \<Longrightarrow>
   classList_contains n c (sticky_handler b d) \<longleftrightarrow> classList_contains n c d"
  by (simp add: sticky_handler_def contains_classList_add contains_classList_remove
      split: option.splits)

lemma sticky_handler_no_navbar:
  "querySelector sel_navbar d = None \<Longrightarrow> sticky_handler b d = d"
  by (simp add: sticky_handler_def)

subsection \<open>The smooth-scroll listener\<close>

lemma smooth_click_ident_found:
  assumes "hash (elems d this) = Some (CHR ''#'' # name)" and "css_ident name"
    and "querySelector [Simple (IdSel name)] d = Some target"
  shows "smooth_click b this d =
           \<lparr>defaultPrevented = True, scrollIntoViewCalls = [ScrollIntoView target Smooth Start],
            thrown = None\<rparr>"
  using assms
  by (simp add: smooth_click_def startsWith_def querySelector_string_def parse_selector_ident)

lemma smooth_click_ident_missing:
  assumes "hash (elems d this) = Some (CHR ''#'' # name)" and "css_ident name"
    and "querySelector [Simple (IdSel name)] d = None"
  shows "smooth_click b this d =
           \<lparr>defaultPrevented = True, scrollIntoViewCalls = [], thrown = None\<rparr>"
  using assms
  by (simp add: smooth_click_def startsWith_def querySelector_string_def parse_selector_ident)

lemma smooth_click_digit_fragment:
  assumes "hash (elems d this) = Some (CHR ''#'' # c # cs)" and "is_digit c"
  shows "smooth_click b this d =
           \<lparr>defaultPrevented = True, scrollIntoViewCalls = [], thrown = Some SyntaxError\<rparr>"
  using assms
  by (simp add: smooth_click_def startsWith_def querySelector_string_def css_ident_digit)

lemma smooth_click_no_hash_property:
  assumes "hash (elems d this) = None"
  shows "smooth_click b this d =
           \<lparr>defaultPrevented = False, scrollIntoViewCalls = [], thrown = Some TypeError\<rparr>"
  using assms by (simp add: smooth_click_def)

subsection \<open>The active-link listener\<close>

lemma tree_fold_remove: "tree (fold (\<lambda>l. classList_remove l c) ls d) = tree d"
  by (induction ls arbitrary: d) (simp_all add: tree_classList_remove)

lemma elems_fold_remove:
  "elems (fold (\<lambda>l. classList_remove l c) ls d) n =
     (if n \<in> set ls then (elems d n)\<lparr>classList := remove_token c (classList (elems d n))\<rparr>
      else elems d n)"
proof (induction ls arbitrary: d)
  case Nil
  show ?case by simp
next
  case (Cons a ls)
  show ?case
    by (simp add: Cons.IH elems_classList_remove remove_token_idem)
qed

lemma tree_active_click: "tree (active_click ls l d) = tree d"
  by (simp add: active_click_def tree_classList_add tree_fold_remove)

lemma classList_active_click:
  "classList (elems (active_click ls l d) n) =
     (let cs = (if n \<in> set ls then remove_token ''active'' (classList (elems d n))
                else classList (elems d n))
      in if n = l then add_token ''active'' cs else cs)"
  by (simp add: active_click_def classList_add_def elems_fold_remove)

lemma attrs_active_click:
  "localName (elems (active_click ls l d) n) = localName (elems d n)"
  "ident (elems (active_click ls l d) n) = ident (elems d n)"
  "hash (elems (active_click ls l d) n) = hash (elems d n)"
  by (simp_all add: active_click_def classList_add_def elems_fold_remove)

lemma active_click_idem: "active_click ls l (active_click ls l d) = active_click ls l d"
proof (rule document_eqI)
  show "tree (active_click ls l (active_click ls l d)) = tree (active_click ls l d)"
    by (simp add: tree_active_click)
next
  fix n
  show "elems (active_click ls l (active_click ls l d)) n = elems (active_click ls l d) n"
  proof (rule element_eqI)
    show "classList (elems (active_click ls l (active_click ls l d)) n) =
          classList (elems (active_click ls l d) n)"
      by (simp add: classList_active_click Let_def remove_add_token remove_token_idem add_token_idem)
  qed (simp_all add: attrs_active_click)
qed

lemma active_click_contains:
  "x \<in> set ls \<Longrightarrow> classList_contains x ''active'' (active_click ls l d) \<longleftrightarrow> x = l"
  by (simp add: classList_contains_def classList_active_click Let_def add_token_mem remove_token_mem)

lemma contains_active_click_other:
  "c \<noteq> ''active'' \<Longrightarrow>
   classList_contains n c (active_click ls l d) \<longleftrightarrow> classList_contains n c d"
  by (simp add: classList_contains_def classList_active_click Let_def add_token_mem remove_token_mem)

subsection \<open>The reveal listener\<close>

lemma tree_reveal_step: "tree (reveal_step b el d) = tree d"
  by (simp add: reveal_step_def tree_classList_add)

lemma contains_reveal_step:
  "classList_contains n c (reveal_step b el d) \<longleftrightarrow>
     (n = el \<and> c = ''visible'' \<and> rectTop b d el < of_int (innerHeight b - 100)) \<or> classList_contains n c d"
  by (auto simp: reveal_step_def contains_classList_add)

lemma attrs_reveal_step:
  "localName (elems (reveal_step b el d) m) = localName (elems d m)"
  "ident (elems (reveal_step b el d) m) = ident (elems d m)"
  "hash (elems (reveal_step b el d) m) = hash (elems d m)"
  by (simp_all add: reveal_step_def attrs_classList_add)

lemma tree_revealOnScroll: "tree (revealOnScroll b els d) = tree d"
  unfolding revealOnScroll_def
  by (induction els arbitrary: d) (simp_all add: tree_reveal_step)

lemma attrs_revealOnScroll:
  "localName (elems (revealOnScroll b els d) m) = localName (elems d m)"
  "ident (elems (revealOnScroll b els d) m) = ident (elems d m)"
  "hash (elems (revealOnScroll b els d) m) = hash (elems d m)"
  unfolding revealOnScroll_def
  by (induction els arbitrary: d; simp add: attrs_reveal_step)+

lemma revealOnScroll_keeps:
  "classList_contains n c d \<Longrightarrow> classList_contains n c (revealOnScroll b els d)"
  unfolding revealOnScroll_def
  by (induction els arbitrary: d) (simp_all add: contains_reveal_step)

lemma revealOnScroll_other_class:
  "c \<noteq> ''visible'' \<Longrightarrow>
   classList_contains n c (revealOnScroll b els d) \<longleftrightarrow> classList_contains n c d"
  unfolding revealOnScroll_def
  by (induction els arbitrary: d) (simp_all add: contains_reveal_step)

lemma revealOnScroll_other_node:
  "n \<notin> set els \<Longrightarrow>
   classList_contains n c (revealOnScroll b els d) \<longleftrightarrow> classList_contains n c d"
  unfolding revealOnScroll_def
  by (induction els arbitrary: d) (auto simp: contains_reveal_step)

lemma revealOnScroll_append:
  "revealOnScroll b (pre @ el # post) d =
     revealOnScroll b post (reveal_step b el (revealOnScroll b pre d))"
  by (simp add: revealOnScroll_def)

lemma revealOnScroll_marks:
  assumes "rectTop b (revealOnScroll b pre d) el < of_int (innerHeight b - 100)"
  shows "classList_contains el ''visible'' (revealOnScroll b (pre @ el # post) d)"
proof -
  have "classList_contains el ''visible'' (reveal_step b el (revealOnScroll b pre d))"
    using assms by (simp add: contains_reveal_step)
  then show ?thesis
    unfolding revealOnScroll_append by (rule revealOnScroll_keeps)
qed

subsection \<open>Every listener\<close>

lemma invoke_keeps_visible:
  "classList_contains el ''visible'' d \<Longrightarrow> classList_contains el ''visible'' (invoke L i d)"
  by (cases i)
    (simp_all add: contains_sticky_handler_other revealOnScroll_keeps contains_active_click_other)

lemma invoke_frame:
  "tree (invoke L i d) = tree d
   \<and> localName (elems (invoke L i d) n) = localName (elems d n)
   \<and> ident (elems (invoke L i d) n) = ident (elems d n)
   \<and> hash (elems (invoke L i d) n) = hash (elems d n)"
  by (cases i)
    (simp_all add: tree_sticky_handler attrs_sticky_handler tree_revealOnScroll attrs_revealOnScroll
      tree_active_click attrs_active_click)

lemma invoke_other_classes:
  assumes "c \<noteq> ''sticky''" "c \<noteq> ''active''" "c \<noteq> ''visible''"
  shows "classList_contains n c (invoke L i d) \<longleftrightarrow> classList_contains n c d"
  using assms
  by (cases i)
    (simp_all add: contains_sticky_handler_other revealOnScroll_other_class contains_active_click_other)

subsection \<open>The example page\<close>

lemmas page_eval = page_def html_element_def querySelector_def querySelectorAll_def tree_order_def
  sel_navbar_def sel_a_btn_def sel_nav_links_a_def sel_reveal_def

lemma page_navbar: "querySelector sel_navbar page = Some 1"
  by (simp add: page_eval)

lemma page_links: "querySelectorAll sel_nav_links_a page = [3, 4, 5]"
  by (simp add: page_eval)

lemma page_reveal: "querySelectorAll sel_reveal page = [6, 7]"
  by (simp add: page_eval)

lemma bare_navbar: "querySelector sel_navbar bare_page = None"
  by (simp add: bare_page_def html_element_def querySelector_def querySelectorAll_def
      tree_order_def sel_navbar_def)

lemma near_scroll_reveals:
  "classList_contains 6 ''visible'' (invoke page_listeners (RevealScroll (host 300 (near 6))) page)"
  by (simp add: page_listeners_def revealOnScroll_def reveal_step_def host_def near_def
      contains_classList_add)

section \<open>Properties\<close>

text \<open>
  C1. Sticky navbar. Whenever the document has a navbar (the first element of class
  \<^verbatim>\<open>navbar\<close>), after the scroll listener ran the navbar carries \<^verbatim>\<open>sticky\<close> exactly when
  the current \<^verbatim>\<open>scrollY\<close> is greater than 50: whatever the offsets of the earlier scroll
  events were (\<open>history\<close>), and in whatever state of its classes the document was.
  Running the listener a second time at the same offset leaves the document as the
  first run left it.
\<close>

theorem sticky_navbar_toggle:
  assumes "querySelector sel_navbar d = Some navbar"
  shows "(classList_contains navbar ''sticky'' (sticky_handler b (fold sticky_handler history d))
            \<longleftrightarrow> 50 < scrollY b)
       \<and> sticky_handler b (sticky_handler b d) = sticky_handler b d"
  using assms
  by (simp add: sticky_handler_contains querySelector_navbar_history sticky_handler_idem)

theorem sticky_navbar_toggle_witness:
  "querySelector sel_navbar page = Some 1
   \<and> classList_contains 1 ''sticky''
       (sticky_handler (host 51 far_away)
          (fold sticky_handler [host 0 far_away, host 1000 far_away] page))
   \<and> \<not> classList_contains 1 ''sticky''
       (sticky_handler (host 50 far_away) (fold sticky_handler [host 1000 far_away] page))
   \<and> sticky_handler (host 1000 far_away) (sticky_handler (host 1000 far_away) page)
       = sticky_handler (host 1000 far_away) page"
proof -
  have h: "querySelector sel_navbar page = Some 1"
    by (simp add: page_eval)
  have a: "scrollY (host 51 far_away) = 51" "scrollY (host 50 far_away) = 50"
    by (simp_all add: host_def)
  from sticky_navbar_toggle [OF h, of "host 51 far_away" "[host 0 far_away, host 1000 far_away]"]
    sticky_navbar_toggle [OF h, of "host 50 far_away" "[host 1000 far_away]"]
    sticky_navbar_toggle [OF h, of "host 1000 far_away" "[]"]
    h a
  show ?thesis by simp
qed

text \<open>
  C2. Active link. A click listener of the captured list \<open>ls\<close> removes \<^verbatim>\<open>active\<close> from
  every link of the list and adds it to its own link. So after any sequence of clicks
  that ends with a click on \<open>link\<close>, a link of the list carries \<^verbatim>\<open>active\<close> exactly when
  it is \<open>link\<close>. With three links, none active, a click on the second and then on the
  third leaves the third active and the other two not (the statement after this one).
\<close>

theorem active_click_marks_last_clicked:
  assumes "l \<in> set ls"
  shows "classList_contains l ''active'' (fold (active_click ls) (clicks @ [link]) d) \<longleftrightarrow> l = link"
  using assms by (simp add: active_click_contains)

theorem active_click_marks_last_clicked_witness:
  "3 \<in> set [3, 4, 5 :: node] \<and> 4 \<in> set [3, 4, 5 :: node] \<and> 5 \<in> set [3, 4, 5 :: node]
   \<and> querySelectorAll sel_nav_links_a page = [3, 4, 5]
   \<and> \<not> classList_contains 3 ''active'' page
   \<and> \<not> classList_contains 4 ''active'' page
   \<and> \<not> classList_contains 5 ''active'' page
   \<and> \<not> classList_contains 3 ''active'' (fold (active_click [3, 4, 5]) [4, 5] page)
   \<and> \<not> classList_contains 4 ''active'' (fold (active_click [3, 4, 5]) [4, 5] page)
   \<and> classList_contains 5 ''active'' (fold (active_click [3, 4, 5]) [4, 5] page)"
proof -
  have m: "3 \<in> set [3, 4, 5 :: node]" "4 \<in> set [3, 4, 5 :: node]" "5 \<in> set [3, 4, 5 :: node]"
    by simp_all
  have p: "\<not> classList_contains 3 ''active'' page" "\<not> classList_contains 4 ''active'' page"
    "\<not> classList_contains 5 ''active'' page"
    by (simp_all add: classList_contains_def page_def html_element_def)
  have e: "[4] @ [5] = [4, 5 :: node]" by simp
  from active_click_marks_last_clicked [OF m(1), of "[4]" 5 page]
    active_click_marks_last_clicked [OF m(2), of "[4]" 5 page]
    active_click_marks_last_clicked [OF m(3), of "[4]" 5 page]
    m p page_links
  show ?thesis unfolding e by simp
qed

text \<open>
  C3. Reveal is one-way. An element that carries \<^verbatim>\<open>visible\<close> carries it after any
  sequence of runs of the script's listeners (both scroll listeners with any offsets
  and any layout, both click listeners on any element): no listener removes the class,
  also when a later scroll finds the element outside the threshold.
\<close>

theorem visible_never_removed:
  assumes "classList_contains el ''visible'' d"
  shows "classList_contains el ''visible'' (fold (invoke L) invocations d)"
  using assms
proof (induction invocations arbitrary: d)
  case Nil
  then show ?case by simp
next
  case (Cons i invocations)
  from Cons.prems have "classList_contains el ''visible'' (invoke L i d)"
    by (rule invoke_keeps_visible)
  then have "classList_contains el ''visible'' (fold (invoke L) invocations (invoke L i d))"
    by (rule Cons.IH)
  then show ?case by simp
qed

theorem visible_never_removed_witness:
  "rectTop (host 300 (near 6)) page 6 = of_int (innerHeight (host 300 (near 6)) - 200)
   \<and> \<not> classList_contains 6 ''visible'' page
   \<and> classList_contains 6 ''visible'' (invoke page_listeners (RevealScroll (host 300 (near 6))) page)
   \<and> \<not> rectTop (host 0 far_away) page 6 < of_int (innerHeight (host 0 far_away) - 100)
   \<and> classList_contains 6 ''visible''
       (fold (invoke page_listeners)
          [StickyScroll (host 0 far_away), RevealScroll (host 0 far_away), ActiveClick 4,
           SmoothClick (host 0 far_away) 4, StickyScroll (host 900 far_away),
           RevealScroll (host 900 far_away)]
          (invoke page_listeners (RevealScroll (host 300 (near 6))) page))"
proof -
  have v: "classList_contains 6 ''visible''
      (invoke page_listeners (RevealScroll (host 300 (near 6))) page)"
    by (rule near_scroll_reveals)
  have e: "rectTop (host 300 (near 6)) page 6 = of_int (innerHeight (host 300 (near 6)) - 200)"
    "\<not> rectTop (host 0 far_away) page 6 < of_int (innerHeight (host 0 far_away) - 100)"
    "\<not> classList_contains 6 ''visible'' page"
    by (simp_all add: host_def near_def far_away_def classList_contains_def page_def html_element_def)
  from visible_never_removed [OF v, of page_listeners
      "[StickyScroll (host 0 far_away), RevealScroll (host 0 far_away), ActiveClick 4,
        SmoothClick (host 0 far_away) 4, StickyScroll (host 900 far_away),
        RevealScroll (host 900 far_away)]"] v e
  show ?thesis by blast
qed

text \<open>
  C4. Reveal on load and on every scroll. The \<^verbatim>\<open>DOMContentLoaded\<close> listener runs
  \<^verbatim>\<open>revealOnScroll\<close> once over the elements of class \<^verbatim>\<open>reveal\<close> it captured, and every
  scroll event runs it over the captured elements again (after the sticky listener).
  In each run every captured element whose top, when it is measured, is less than
  \<^verbatim>\<open>innerHeight - 100\<close> carries \<^verbatim>\<open>visible\<close> at the end of the run. The element \<open>el\<close> is
  measured after the elements before it (\<open>pre\<close>) were handled.
\<close>

theorem reveal_on_load_and_on_scroll:
  "snd (DOMContentLoaded b d) = revealOnScroll b (querySelectorAll sel_reveal d) d
   \<and> revealElements (fst (DOMContentLoaded b d)) = querySelectorAll sel_reveal d
   \<and> (querySelectorAll sel_reveal d = pre @ el # post
        \<and> rectTop b (revealOnScroll b pre d) el < of_int (innerHeight b - 100)
      \<longrightarrow> classList_contains el ''visible'' (snd (DOMContentLoaded b d)))
   \<and> scroll_event L b' d' = revealOnScroll b' (revealElements L) (sticky_handler b' d')
   \<and> (revealElements L = pre' @ el' # post'
        \<and> rectTop b' (revealOnScroll b' pre' (sticky_handler b' d')) el' < of_int (innerHeight b' - 100)
      \<longrightarrow> classList_contains el' ''visible'' (scroll_event L b' d'))"
  by (auto simp: DOMContentLoaded_def Let_def scroll_event_def intro: revealOnScroll_marks)

theorem reveal_on_load_and_on_scroll_witness:
  "querySelectorAll sel_reveal page = [] @ 6 # [7]
   \<and> rectTop (host 0 (near 6)) (revealOnScroll (host 0 (near 6)) [] page) 6
       < of_int (innerHeight (host 0 (near 6)) - 100)
   \<and> classList_contains 6 ''visible'' (snd (DOMContentLoaded (host 0 (near 6)) page))
   \<and> revealElements page_listeners = [6] @ 7 # []
   \<and> rectTop (host 300 (near 7))
         (revealOnScroll (host 300 (near 7)) [6] (sticky_handler (host 300 (near 7)) page)) 7
       < of_int (innerHeight (host 300 (near 7)) - 100)
   \<and> classList_contains 7 ''visible'' (scroll_event page_listeners (host 300 (near 7)) page)"
proof -
  have h1: "querySelectorAll sel_reveal page = [] @ 6 # [7]"
    by (simp add: page_reveal)
  have h2: "rectTop (host 0 (near 6)) (revealOnScroll (host 0 (near 6)) [] page) 6
       < of_int (innerHeight (host 0 (near 6)) - 100)"
    by (simp add: host_def near_def)
  have h3: "revealElements page_listeners = [6] @ 7 # []"
    by (simp add: page_listeners_def)
  have h4: "rectTop (host 300 (near 7))
         (revealOnScroll (host 300 (near 7)) [6] (sticky_handler (host 300 (near 7)) page)) 7
       < of_int (innerHeight (host 300 (near 7)) - 100)"
    by (simp add: host_def near_def)
  from reveal_on_load_and_on_scroll [where b = "host 0 (near 6)" and d = page and pre = "[]"
      and el = 6 and post = "[7]" and L = page_listeners and b' = "host 300 (near 7)"
      and d' = page and pre' = "[6]" and el' = 7 and post' = "[]"] h1 h2 h3 h4
  show ?thesis by blast
qed

text \<open>
  C5. Smooth scroll to an existing target. A click on a link whose hash is \<^verbatim>\<open>#\<close> and a
  plain CSS identifier, in a document where \<open>target\<close> is the first element with that id,
  is prevented from navigating and calls \<^verbatim>\<open>scrollIntoView\<close> once on the target, smooth,
  block start (\<open>smooth_click_ident_found\<close>). For a fragment that begins with a digit the
  script does not get that far. Here the link is \<^verbatim>\<open><a href="#1">\<close> and the document holds
  \<^verbatim>\<open><section id="1">\<close>: \<^verbatim>\<open>preventDefault\<close> is called, \<^verbatim>\<open>document.querySelector("#1")\<close>
  throws a \<^verbatim>\<open>SyntaxError\<close>, and \<^verbatim>\<open>scrollIntoView\<close> is never called.
\<close>

theorem smooth_click_digit_target_throws:
  "hash (elems digit_target_page 1) = Some ''#1''
   \<and> querySelector [Simple (IdSel ''1'')] digit_target_page = Some 2
   \<and> smooth_click b 1 digit_target_page =
       \<lparr>defaultPrevented = True, scrollIntoViewCalls = [], thrown = Some SyntaxError\<rparr>"
proof -
  have h: "hash (elems digit_target_page 1) = Some (CHR ''#'' # CHR ''1'' # [])"
    by (simp add: digit_target_page_def html_element_def)
  have t: "querySelector [Simple (IdSel ''1'')] digit_target_page = Some 2"
    by (simp add: digit_target_page_def html_element_def querySelector_def querySelectorAll_def
        tree_order_def)
  have "is_digit CHR ''1''" by (simp add: is_digit_def)
  with h t smooth_click_digit_fragment [OF h] show ?thesis by simp
qed

text \<open>
  C6. Smooth scroll, no target. A click on a link whose hash is \<^verbatim>\<open>#\<close> and a plain CSS
  identifier that no element has as its id is prevented from navigating, scrolls
  nothing and ends normally (\<open>smooth_click_ident_missing\<close>). For a fragment that begins
  with a digit the listener does not end normally. Here the link is \<^verbatim>\<open><a href="#1">\<close>
  and no element has the id \<^verbatim>\<open>1\<close>: \<^verbatim>\<open>preventDefault\<close> is called, nothing is scrolled,
  and the listener ends with the \<^verbatim>\<open>SyntaxError\<close> of \<^verbatim>\<open>querySelector\<close>.
\<close>

theorem smooth_click_digit_missing_throws:
  "hash (elems digit_missing_page 1) = Some ''#1''
   \<and> querySelector [Simple (IdSel ''1'')] digit_missing_page = None
   \<and> smooth_click b 1 digit_missing_page =
       \<lparr>defaultPrevented = True, scrollIntoViewCalls = [], thrown = Some SyntaxError\<rparr>"
proof -
  have h: "hash (elems digit_missing_page 1) = Some (CHR ''#'' # CHR ''1'' # [])"
    by (simp add: digit_missing_page_def html_element_def)
  have t: "querySelector [Simple (IdSel ''1'')] digit_missing_page = None"
    by (simp add: digit_missing_page_def html_element_def querySelector_def querySelectorAll_def
        tree_order_def)
  have "is_digit CHR ''1''" by (simp add: is_digit_def)
  with h t smooth_click_digit_fragment [OF h] show ?thesis by simp
qed

text \<open>
  C7. Empty hash. A click on a link whose \<^verbatim>\<open>hash\<close> is the empty string (an empty
  \<^verbatim>\<open>href\<close>, or a URL without a fragment) falls through: \<^verbatim>\<open>preventDefault\<close> is not called,
  \<^verbatim>\<open>scrollIntoView\<close> is not called, nothing is thrown, and the document is as it was.
\<close>

theorem smooth_click_empty_hash:
  assumes "hash (elems d this) = Some []"
  shows "smooth_click b this d =
           \<lparr>defaultPrevented = False, scrollIntoViewCalls = [], thrown = None\<rparr>
       \<and> invoke L (SmoothClick b this) d = d"
  using assms by (simp add: smooth_click_def)

theorem smooth_click_empty_hash_witness:
  "hash (elems page 5) = Some []
   \<and> smooth_click (host 0 far_away) 5 page =
       \<lparr>defaultPrevented = False, scrollIntoViewCalls = [], thrown = None\<rparr>
   \<and> invoke page_listeners (SmoothClick (host 0 far_away) 5) page = page"
proof -
  have h: "hash (elems page 5) = Some []"
    by (simp add: page_def html_element_def)
  from smooth_click_empty_hash [OF h, of "host 0 far_away" page_listeners] h
  show ?thesis by simp
qed

text \<open>
  C8. Absent targets and the frame. Without a navbar the sticky listener leaves the
  document as it is (\<open>sticky_handler_no_navbar\<close>); no listener changes the tree, a
  name, an id or a hash (\<open>invoke_frame\<close>), nor the membership of a class other than
  \<^verbatim>\<open>sticky\<close>, \<^verbatim>\<open>active\<close> and \<^verbatim>\<open>visible\<close> (\<open>invoke_other_classes\<close>). But a missing
  target of a fragment is not always passed over in silence. Here the link is
  \<^verbatim>\<open><a class="btn" href="#2024-report">\<close> and no element has that id: the click listener
  ends with a \<^verbatim>\<open>SyntaxError\<close>.
\<close>

theorem absent_target_handler_throws:
  "hash (elems report_link_page 1) = Some ''#2024-report''
   \<and> querySelector [Simple (IdSel ''2024-report'')] report_link_page = None
   \<and> thrown (smooth_click b 1 report_link_page) = Some SyntaxError"
proof -
  have h: "hash (elems report_link_page 1) = Some (CHR ''#'' # CHR ''2'' # ''024-report'')"
    by (simp add: report_link_page_def html_element_def)
  have t: "querySelector [Simple (IdSel ''2024-report'')] report_link_page = None"
    by (simp add: report_link_page_def html_element_def querySelector_def querySelectorAll_def
        tree_order_def)
  have "is_digit CHR ''2''" by (simp add: is_digit_def)
  with h t smooth_click_digit_fragment [OF h, of b] show ?thesis by simp
qed

text \<open>
  C9. The active-link listener is idempotent. From any document, a second click on the
  same link leaves the document as the first click left it, and after the click a
  link \<open>x\<close> of the captured list carries \<^verbatim>\<open>active\<close> exactly when it is the clicked one.
\<close>

theorem active_click_idempotent:
  assumes "x \<in> set ls"
  shows "active_click ls l (active_click ls l d) = active_click ls l d
       \<and> (classList_contains x ''active'' (active_click ls l d) \<longleftrightarrow> x = l)"
  using assms by (simp add: active_click_idem active_click_contains)

theorem active_click_idempotent_witness:
  "3 \<in> set [3, 4, 5 :: node] \<and> 4 \<in> set [3, 4, 5 :: node]
   \<and> active_click [3, 4, 5] 4 (active_click [3, 4, 5] 4 (classList_add 3 ''active'' page))
       = active_click [3, 4, 5] 4 (classList_add 3 ''active'' page)
   \<and> classList_contains 3 ''active'' (classList_add 3 ''active'' page)
   \<and> \<not> classList_contains 3 ''active'' (active_click [3, 4, 5] 4 (classList_add 3 ''active'' page))
   \<and> classList_contains 4 ''active'' (active_click [3, 4, 5] 4 (classList_add 3 ''active'' page))"
proof -
  have m: "3 \<in> set [3, 4, 5 :: node]" "4 \<in> set [3, 4, 5 :: node]"
    by simp_all
  from active_click_idempotent [OF m(1), of 4 "classList_add 3 ''active'' page"]
    active_click_idempotent [OF m(2), of 4 "classList_add 3 ''active'' page"]
    m
  show ?thesis by (simp add: contains_classList_add)
qed

text \<open>
  C10. The sticky listener queries the navbar anew at every scroll event. Whatever the
  listeners captured at load (\<open>L\<close>: also the lists of a document that had no navbar
  then), a navbar that is in the document at the scroll event carries \<^verbatim>\<open>sticky\<close> after
  the event exactly when \<^verbatim>\<open>scrollY\<close> is greater than 50, and for every element the
  membership of \<^verbatim>\<open>sticky\<close> after the event is what the sticky listener alone makes of
  the host and the document of that moment. The reveal listener, by contrast, works on
  the captured list: an element that is not in it keeps its \<^verbatim>\<open>visible\<close> membership.
\<close>

theorem sticky_requeries_on_every_scroll:
  assumes "querySelector sel_navbar d = Some navbar"
  shows "(classList_contains navbar ''sticky'' (scroll_event L b d) \<longleftrightarrow> 50 < scrollY b)
       \<and> (classList_contains n ''sticky'' (scroll_event L b d)
            \<longleftrightarrow> classList_contains n ''sticky'' (sticky_handler b d))
       \<and> (el \<notin> set (revealElements L) \<longrightarrow>
            (classList_contains el ''visible'' (scroll_event L b d)
              \<longleftrightarrow> classList_contains el ''visible'' d))"
  using assms
  by (simp add: scroll_event_def revealOnScroll_other_class revealOnScroll_other_node
      sticky_handler_contains contains_sticky_handler_other)

theorem sticky_requeries_on_every_scroll_witness:
  "querySelector sel_navbar bare_page = None
   \<and> querySelector sel_navbar page = Some 1
   \<and> 8 \<notin> set (revealElements (fst (DOMContentLoaded (host 0 far_away) bare_page)))
   \<and> classList_contains 1 ''sticky''
       (scroll_event (fst (DOMContentLoaded (host 0 far_away) bare_page)) (host 60 far_away) page)
   \<and> \<not> classList_contains 1 ''sticky''
       (scroll_event (fst (DOMContentLoaded (host 0 far_away) bare_page)) (host 50 far_away) page)
   \<and> \<not> classList_contains 8 ''visible''
       (scroll_event (fst (DOMContentLoaded (host 0 far_away) bare_page)) (host 60 far_away) page)"
proof -
  have h: "querySelector sel_navbar page = Some 1"
    by (rule page_navbar)
  have r: "8 \<notin> set (revealElements (fst (DOMContentLoaded (host 0 far_away) bare_page)))"
    by (simp add: DOMContentLoaded_def bare_page_def html_element_def querySelectorAll_def
        tree_order_def sel_reveal_def)
  have s: "scrollY (host 60 far_away) = 60" "scrollY (host 50 far_away) = 50"
    by (simp_all add: host_def)
  have v: "\<not> classList_contains 8 ''visible'' page"
    by (simp add: classList_contains_def page_def html_element_def)
  from sticky_requeries_on_every_scroll [OF h,
      of "fst (DOMContentLoaded (host 0 far_away) bare_page)" "host 60 far_away" 1 8]
    sticky_requeries_on_every_scroll [OF h,
      of "fst (DOMContentLoaded (host 0 far_away) bare_page)" "host 50 far_away" 1 8]
    h r s v bare_navbar
  show ?thesis by simp
qed

end
